theory Spec2Isabelle
  imports Main "HOL-Library.Sublist"
begin

section \<open>Automatic two-agent chat: the turn loop of \<open>main.mjs\<close>\<close>

text \<open>
  The script keeps a transcript \<open>chatHistory\<close>, asks the two agents in turn for a reply
  through \<open>sendMessageToAgent\<close> and appends every reply, until \<open>turnCount\<close> reaches
  \<open>MAX_TURNS\<close>. The development follows the fully featured variant of the script (the one
  with \<open>trimChatHistory\<close>, \<open>maxTurns\<close>, \<open>chatMaxLength\<close>, \<open>temperature\<close> and
  \<open>repeatPenalty\<close>).

  Conventions of the embedding.
  \<^item> A JavaScript string is the list of its UTF-16 code units, each a \<open>nat\<close>
    (\<open>jsstring\<close>); \<open>js\<close> turns a literal of the source into that list.
  \<^item> \<open>undefined\<close> and \<open>null\<close> are \<open>None\<close>; the settings are taken after the defaulting
    of the loader (\<open>||\<close> and \<open>??\<close>), with the types its annotations declare. The two
    integer settings are \<open>int\<close>; the decoding parameters are only passed on, so their
    type is a parameter \<open>'n\<close>.
  \<^item> The inference server is outside the program: it is a parameter \<open>chat\<close> that, for the
    number of earlier calls and the request, says how the awaited promise settles.
  \<^item> Writing to the console cannot fail and is left out, except for the one notice of the
    start-up code that tells the operator who begins. \<open>process.stdout.clearLine\<close> and
    \<open>process.stdout.cursorTo\<close> exist only when the standard output is a terminal;
    whether it is one is the parameter \<open>isTTY\<close>, and calling them elsewhere throws.
\<close>

subsection \<open>Data\<close>

type_synonym jsstring = "nat list"

text \<open>
  The code units of a literal. Inside the literals below, the apostrophe is written as
  its code unit, \<open>[39]\<close>, and the line feed as \<open>[10]\<close>.
\<close>

definition js :: "string \<Rightarrow> jsstring" where
  "js s = map of_char s"

text \<open>The \<open>Message\<close> typedef of the script: one transcript entry.\<close>

record Message =
  name :: jsstring
  message :: jsstring

text \<open>\<open>ollama.Message\<close>: one entry of the conversation sent to the server.\<close>

record ollama_message =
  role :: jsstring
  content :: jsstring

text \<open>\<open>ollamaKeepAlive\<close> is declared \<open>string | number\<close>.\<close>

datatype keep_alive_value = KeepAliveString jsstring | KeepAliveNumber int

text \<open>The module-level settings, after loading.\<close>

record 'n settings =
  agent1Name :: jsstring
  agent2Name :: jsstring
  agent1System :: jsstring
  agent2System :: jsstring
  initialMessages :: "Message list"
  ollamaHost :: jsstring
  ollamaModel :: jsstring
  ollamaKeepAlive :: "keep_alive_value option"
  maxTurns :: int
  chatMaxLength :: int
  temperature :: "'n option"
  repeatPenalty :: "'n option"

text \<open>
  The argument of \<open>client.chat\<close>. \<open>options\<close> is an object literal built by spreading, so
  it is the list of its own properties in insertion order.
\<close>

record 'n chat_request =
  model :: jsstring
  keep_alive :: "keep_alive_value option"
  messages :: "ollama_message list"
  options :: "(jsstring \<times> 'n) list"

text \<open>
  What the catch block reads of a thrown value: \<open>error.code\<close> and \<open>error.message\<close>,
  either of which may be undefined. The thrown value is an object, as the errors of the
  client and of the network layer are.
\<close>

record js_error =
  code :: "jsstring option"
  error_message :: "jsstring option"

text \<open>
  How the awaited call settles: it resolves, and then \<open>response?.message?.content\<close> is a
  string or is absent (\<open>None\<close>, also when \<open>response\<close> or \<open>response.message\<close> is), or
  it rejects with an error.
\<close>

datatype chat_outcome = Resolved "jsstring option" | Rejected js_error

type_synonym 'n backend = "nat \<Rightarrow> 'n chat_request \<Rightarrow> chat_outcome"

text \<open>
  The global chat state. \<open>requests\<close> is not a variable of the script: it records, in
  order, the argument of every \<open>client.chat\<close> call made so far, and only
  \<open>sendMessageToAgent\<close> adds to it.
\<close>

record 'n run_state =
  chatHistory :: "Message list"
  turnCount :: int
  requests :: "'n chat_request list"

subsection \<open>Library functions of the language\<close>

text \<open>
  \<open>Array.prototype.slice(start)\<close>: a negative start counts from the end, and the start
  is clamped to the array.
\<close>

definition slice :: "'a list \<Rightarrow> int \<Rightarrow> 'a list" where
  "slice xs start =
     (let len = int (length xs);
          k = (if start < 0 then max (len + start) 0 else min start len)
      in drop (nat k) xs)"

text \<open>
  \<open>String.prototype.trim\<close> strips WhiteSpace and LineTerminator code points from both
  ends: TAB, VT, FF, U+FEFF and the space separators (SP, NBSP, U+1680, U+2000 to
  U+200A, U+202F, U+205F, U+3000), and LF, CR, U+2028, U+2029. All of them are single
  code units.
\<close>

definition isWhiteSpace :: "nat \<Rightarrow> bool" where
  "isWhiteSpace c \<longleftrightarrow>
     c \<in> {0x09, 0x0B, 0x0C, 0xFEFF, 0x20, 0xA0, 0x1680, 0x202F, 0x205F, 0x3000,
           0x0A, 0x0D, 0x2028, 0x2029} \<or>
     (0x2000 \<le> c \<and> c \<le> 0x200A)"

definition trim :: "jsstring \<Rightarrow> jsstring" where
  "trim s = rev (dropWhile isWhiteSpace (rev (dropWhile isWhiteSpace s)))"

text \<open>\<open>String.prototype.includes\<close>: does the pattern occur somewhere in the string.\<close>

fun includes_str :: "jsstring \<Rightarrow> jsstring \<Rightarrow> bool" where
  "includes_str [] p = (p = [])"
| "includes_str (c # cs) p = (prefix p (c # cs) \<or> includes_str cs p)"

subsection \<open>Trimming the history\<close>

definition trimChatHistory :: "'a list \<Rightarrow> int \<Rightarrow> 'a list" where
  "trimChatHistory history maxLength =
     (if int (length history) \<le> maxLength then history
      else slice history (int (length history) - maxLength))"

subsection \<open>One call of the model\<close>

text \<open>The \<open>for (const msg of trimmedHistory)\<close> loop, pushing onto \<open>messages\<close>.\<close>

fun pushHistory :: "jsstring \<Rightarrow> Message list \<Rightarrow> ollama_message list \<Rightarrow> ollama_message list" where
  "pushHistory currentAgent [] msgs = msgs"
| "pushHistory currentAgent (msg # rest) msgs =
     pushHistory currentAgent rest
       (msgs @ [\<lparr>role = (if name msg = currentAgent then js ''assistant'' else js ''user''),
                 content = message msg\<rparr>])"

text \<open>The \<open>messages\<close> array at the point where \<open>client.chat\<close> is called.\<close>

definition buildMessages ::
  "('n, 'x) settings_scheme \<Rightarrow> Message list \<Rightarrow> jsstring \<Rightarrow> jsstring \<Rightarrow> ollama_message list" where
  "buildMessages cfg history currentAgent systemPrompt =
     (let msgs = (if systemPrompt \<noteq> [] then [\<lparr>role = js ''system'', content = systemPrompt\<rparr>] else []);
          trimmedHistory =
            trimChatHistory history (chatMaxLength cfg - (if systemPrompt \<noteq> [] then 1 else 0))
      in pushHistory currentAgent trimmedHistory msgs)"

text \<open>The object handed to \<open>client.chat\<close>.\<close>

definition chatRequest :: "('n, 'x) settings_scheme \<Rightarrow> ollama_message list \<Rightarrow> 'n chat_request" where
  "chatRequest cfg msgs =
     \<lparr>model = ollamaModel cfg,
      keep_alive = ollamaKeepAlive cfg,
      messages = msgs,
      options =
        (case temperature cfg of None \<Rightarrow> [] | Some t \<Rightarrow> [(js ''temperature'', t)]) @
        (case repeatPenalty cfg of None \<Rightarrow> [] | Some r \<Rightarrow> [(js ''repeat_penalty'', r)])\<rparr>"

definition noValidContent :: jsstring where
  "noValidContent = js ''No valid content received from the Ollama model.''"

text \<open>\<open>response?.message?.content?.trim() ?? "No valid content ..."\<close>.\<close>

definition extractContent :: "jsstring option \<Rightarrow> jsstring" where
  "extractContent c = (case c of None \<Rightarrow> noValidContent | Some s \<Rightarrow> trim s)"

definition connectionRefusedText :: "('n, 'x) settings_scheme \<Rightarrow> jsstring" where
  "connectionRefusedText cfg =
     js ''(Error: Could not connect to Ollama server at '' @ ollamaHost cfg @ js ''. Is Ollama running?)''"

definition modelNotFoundText :: "('n, 'x) settings_scheme \<Rightarrow> jsstring" where
  "modelNotFoundText cfg =
     js ''(Error: Ollama model '' @ [39] @ ollamaModel cfg @ [39] @
     js '' not found. Did you run '' @ [39] @ js ''ollama run '' @ ollamaModel cfg @ [39] @ js ''?)''"

text \<open>A template literal prints an undefined value as \<open>undefined\<close>.\<close>

definition templateText :: "jsstring option \<Rightarrow> jsstring" where
  "templateText v = (case v of None \<Rightarrow> js ''undefined'' | Some s \<Rightarrow> s)"

definition genericErrorText :: "js_error \<Rightarrow> jsstring" where
  "genericErrorText e =
     js ''(Error: Could not generate response - '' @ templateText (error_message e) @ js '')''"

text \<open>The \<open>catch\<close> block of \<open>sendMessageToAgent\<close>.\<close>

definition catchError :: "('n, 'x) settings_scheme \<Rightarrow> js_error \<Rightarrow> jsstring" where
  "catchError cfg e =
     (if code e = Some (js ''ECONNREFUSED'') then connectionRefusedText cfg
      else if (case error_message e of
                 None \<Rightarrow> False
               | Some m \<Rightarrow> includes_str m (js ''pull '' @ ollamaModel cfg @ js '': file does not exist''))
      then modelNotFoundText cfg
      else genericErrorText e)"

text \<open>
  \<open>sendMessageToAgent\<close>. \<open>sent\<close> is the list of the requests made before this call;
  the one \<open>client.chat\<close> of the body adds its request to it, and the list is returned
  with the text. The function has no exit other than the two \<open>return\<close>s modelled here.
\<close>

definition sendMessageToAgent ::
  "('n, 'x) settings_scheme \<Rightarrow> 'n backend \<Rightarrow> 'n chat_request list \<Rightarrow> Message list \<Rightarrow>
     jsstring \<Rightarrow> jsstring \<Rightarrow> jsstring \<times> 'n chat_request list" where
  "sendMessageToAgent cfg chat sent history currentAgent systemPrompt =
     (let request = chatRequest cfg (buildMessages cfg history currentAgent systemPrompt)
      in case chat (length sent) request of
           Resolved c \<Rightarrow> (extractContent c, sent @ [request])
         | Rejected e \<Rightarrow> (catchError cfg e, sent @ [request]))"

subsection \<open>The turn loop\<close>

definition agentName :: "('n, 'x) settings_scheme \<Rightarrow> int \<Rightarrow> jsstring" where
  "agentName cfg currentAgentIndex = (if currentAgentIndex = 1 then agent1Name cfg else agent2Name cfg)"

definition agentSystem :: "('n, 'x) settings_scheme \<Rightarrow> int \<Rightarrow> jsstring" where
  "agentSystem cfg currentAgentIndex =
     (if currentAgentIndex = 1 then agent1System cfg else agent2System cfg)"

definition otherIndex :: "int \<Rightarrow> int" where
  "otherIndex currentAgentIndex = (if currentAgentIndex = 1 then 2 else 1)"

text \<open>
  How one turn ends: the answer was pushed onto \<open>chatHistory\<close>, or an exception left
  the body before the push. Either way the state at that point is kept.
\<close>

datatype 'n turn_end = Pushed "'n run_state" | Threw "'n run_state"

text \<open>
  The body of \<open>autoChat\<close> between the guard and the timer: count the turn, ask the
  current agent, clear the line of the typing notice, push the answer. Clearing the line
  calls \<open>process.stdout.clearLine(0)\<close>, which is not a function unless the standard
  output is a terminal; the \<open>TypeError\<close> is thrown after the answer has arrived and
  before the push.
\<close>

definition autoChatTurn ::
  "('n, 'x) settings_scheme \<Rightarrow> 'n backend \<Rightarrow> bool \<Rightarrow> int \<Rightarrow> 'n run_state \<Rightarrow> 'n turn_end" where
  "autoChatTurn cfg chat isTTY currentAgentIndex s =
     (let currentAgent = agentName cfg currentAgentIndex;
          currentAgentSystemPrompt = agentSystem cfg currentAgentIndex;
          (responseText, sent) =
            sendMessageToAgent cfg chat (requests s) (chatHistory s)
              currentAgent currentAgentSystemPrompt;
          counted = \<lparr>chatHistory = chatHistory s, turnCount = turnCount s + 1, requests = sent\<rparr>
      in if \<not> isTTY then Threw counted
         else Pushed (counted\<lparr>chatHistory :=
                chatHistory s @ [\<lparr>name = currentAgent, message = responseText\<rparr>]\<rparr>))"

text \<open>
  How the script ends: \<open>process.exit(1)\<close> of the settings check; the guard of
  \<open>autoChat\<close> found \<open>turnCount >= MAX_TURNS\<close>; or a turn threw. Nothing catches the
  rejection of \<open>autoChat\<close>'s promise and the timer for the next turn is not set, so
  the loop stops in the state of the throw.
\<close>

datatype 'n run_end = Exited | Finished "'n run_state" | Uncaught "'n run_state"

text \<open>
  \<open>autoChat\<close>: the timer callback calls it again with the other index, so the loop is a
  recursion on the state.
\<close>

function autoChat ::
  "('n, 'x) settings_scheme \<Rightarrow> 'n backend \<Rightarrow> bool \<Rightarrow> int \<Rightarrow> 'n run_state \<Rightarrow> 'n run_end" where
  "autoChat cfg chat isTTY currentAgentIndex s =
     (if maxTurns cfg \<le> turnCount s then Finished s
      else case autoChatTurn cfg chat isTTY currentAgentIndex s of
             Threw s' \<Rightarrow> Uncaught s'
           | Pushed s' \<Rightarrow> autoChat cfg chat isTTY (otherIndex currentAgentIndex) s')"
  by pat_completeness auto
termination
  by (relation "measure (\<lambda>(cfg, chat, isTTY, i, s). nat (maxTurns cfg - turnCount s))")
     (auto simp: autoChatTurn_def Let_def split_def split: if_splits)

declare autoChat.simps [simp del]

subsection \<open>Start-up\<close>

text \<open>
  Who speaks first, from the last entry of the seeded history, together with the lines
  printed while deciding.
\<close>

definition firstAgent :: "('n, 'x) settings_scheme \<Rightarrow> Message list \<Rightarrow> int \<times> jsstring list" where
  "firstAgent cfg history =
     (let lastSenderName = name (last history)
      in if lastSenderName = agent1Name cfg then (2, [])
         else if lastSenderName = agent2Name cfg then (1, [])
         else (1, [[10] @ js ''(Last initial message was from '' @ [39] @ lastSenderName @
                   [39] @ js ''. '' @ agent1Name cfg @ js '' will start.)'']))"

text \<open>The settings check that ends the process before any turn.\<close>

definition settingsIncomplete :: "('n, 'x) settings_scheme \<Rightarrow> bool" where
  "settingsIncomplete cfg \<longleftrightarrow>
     agent1Name cfg = [] \<or> agent2Name cfg = [] \<or> initialMessages cfg = []"

definition initialState :: "('n, 'x) settings_scheme \<Rightarrow> 'n run_state" where
  "initialState cfg = \<lparr>chatHistory = initialMessages cfg, turnCount = 0, requests = []\<rparr>"

text \<open>The whole script after the settings are loaded.\<close>

definition runChat :: "('n, 'x) settings_scheme \<Rightarrow> 'n backend \<Rightarrow> bool \<Rightarrow> 'n run_end" where
  "runChat cfg chat isTTY =
     (if settingsIncomplete cfg then Exited
      else autoChat cfg chat isTTY (fst (firstAgent cfg (chatHistory (initialState cfg))))
             (initialState cfg))"

subsection \<open>Notions used in the statements\<close>

text \<open>
  The index passed to the invocation of \<open>autoChat\<close> that runs turn \<open>k\<close> (counted
  from 0), when the first invocation got \<open>start\<close>.
\<close>

definition actingIndex :: "int \<Rightarrow> nat \<Rightarrow> int" where
  "actingIndex start k = (otherIndex ^^ k) start"

text \<open>The state in which a turn that pushes its answer leaves the loop.\<close>

definition pushedState ::
  "('n, 'x) settings_scheme \<Rightarrow> 'n backend \<Rightarrow> int \<Rightarrow> 'n run_state \<Rightarrow> 'n run_state" where
  "pushedState cfg chat i s =
     \<lparr>chatHistory = chatHistory s @
        [\<lparr>name = agentName cfg i,
          message = fst (sendMessageToAgent cfg chat (requests s) (chatHistory s)
            (agentName cfg i) (agentSystem cfg i))\<rparr>],
      turnCount = turnCount s + 1,
      requests = snd (sendMessageToAgent cfg chat (requests s) (chatHistory s)
            (agentName cfg i) (agentSystem cfg i))\<rparr>"

text \<open>
  The state after \<open>k\<close> pushing turns of the loop started with index \<open>start\<close> in
  state \<open>s\<close>.
\<close>

fun afterTurns ::
  "('n, 'x) settings_scheme \<Rightarrow> 'n backend \<Rightarrow> int \<Rightarrow> 'n run_state \<Rightarrow> nat \<Rightarrow> 'n run_state" where
  "afterTurns cfg chat start s 0 = s"
| "afterTurns cfg chat start s (Suc k) =
     pushedState cfg chat (actingIndex start k) (afterTurns cfg chat start s k)"

text \<open>
  The context of section 4.2 of the specification, written from its three steps: the
  system message if there is a prompt, then the last \<open>max(0, N - slot)\<close> entries,
  each labelled from the acting agent's point of view.
\<close>

definition specSlot :: "jsstring \<Rightarrow> int" where
  "specSlot systemPrompt = (if systemPrompt \<noteq> [] then 1 else 0)"

definition specSystem :: "jsstring \<Rightarrow> ollama_message list" where
  "specSystem systemPrompt =
     (if systemPrompt \<noteq> [] then [\<lparr>role = js ''system'', content = systemPrompt\<rparr>] else [])"

definition specLabel :: "jsstring \<Rightarrow> Message \<Rightarrow> ollama_message" where
  "specLabel actingAgent entry =
     \<lparr>role = (if name entry = actingAgent then js ''assistant'' else js ''user''),
      content = message entry\<rparr>"

definition specWindow :: "int \<Rightarrow> jsstring \<Rightarrow> 'a list \<Rightarrow> 'a list" where
  "specWindow N systemPrompt transcript =
     drop (length transcript - nat (max 0 (N - specSlot systemPrompt))) transcript"

definition specContext :: "int \<Rightarrow> Message list \<Rightarrow> jsstring \<Rightarrow> jsstring \<Rightarrow> ollama_message list" where
  "specContext N transcript actingAgent systemPrompt =
     specSystem systemPrompt @ map (specLabel actingAgent) (specWindow N systemPrompt transcript)"

text \<open>
  A sample run, after the first scenario of section 8 of the specification: Ann and
  Bob, Ann has spoken, two turns, a window of three; and servers that always answer,
  always refuse the connection, or always fail in one of the other ways.
\<close>

definition exampleSettings :: "int settings" where
  "exampleSettings =
     \<lparr>agent1Name = js ''Ann'', agent2Name = js ''Bob'',
      agent1System = js ''Be brief.'', agent2System = [],
      initialMessages = [\<lparr>name = js ''Ann'', message = js ''hi''\<rparr>],
      ollamaHost = js ''http://localhost:11434'', ollamaModel = js ''llama2'',
      ollamaKeepAlive = Some (KeepAliveString (js ''5m'')), maxTurns = 2, chatMaxLength = 3,
      temperature = Some 1, repeatPenalty = None\<rparr>"

definition replyBackend :: "int backend" where
  "replyBackend k request = Resolved (Some (js '' ok ''))"

definition refusingBackend :: "int backend" where
  "refusingBackend k request =
     Rejected \<lparr>code = Some (js ''ECONNREFUSED''), error_message = Some (js ''connect ECONNREFUSED'')\<rparr>"

definition tenEntries :: "Message list" where
  "tenEntries =
     concat (replicate 5 [\<lparr>name = js ''Ann'', message = js ''a''\<rparr>, \<lparr>name = js ''Bob'', message = js ''b''\<rparr>])"

definition refusedState :: "int run_state" where
  "refusedState =
     \<lparr>chatHistory =
       [\<lparr>name = js ''Ann'', message = js ''hi''\<rparr>,
        \<lparr>name = js ''Bob'', message =
           (js ''(Error: Could not connect to Ollama server at http://localhost:11434. Is Ollama running?)'')\<rparr>,
        \<lparr>name = js ''Ann'', message =
           (js ''(Error: Could not connect to Ollama server at http://localhost:11434. Is Ollama running?)'')\<rparr>],
      turnCount = 2,
      requests =
       [\<lparr>model = js ''llama2'', keep_alive = Some (KeepAliveString (js ''5m'')),
         messages = [\<lparr>role = js ''user'', content = js ''hi''\<rparr>],
         options = [(js ''temperature'', 1)]\<rparr>,
        \<lparr>model = js ''llama2'', keep_alive = Some (KeepAliveString (js ''5m'')),
         messages =
           [\<lparr>role = js ''system'', content = js ''Be brief.''\<rparr>,
            \<lparr>role = js ''assistant'', content = js ''hi''\<rparr>,
            \<lparr>role = js ''user'', content =
              (js ''(Error: Could not connect to Ollama server at http://localhost:11434. Is Ollama running?)'')\<rparr>],
         options = [(js ''temperature'', 1)]\<rparr>]\<rparr>"

definition brokenBackend :: "int backend" where
  "brokenBackend k request = Rejected \<lparr>code = None, error_message = Some (js ''boom'')\<rparr>"

definition silentBackend :: "int backend" where
  "silentBackend k request = Rejected \<lparr>code = None, error_message = None\<rparr>"

definition missingModelBackend :: "int backend" where
  "missingModelBackend k request =
     Rejected \<lparr>code = None, error_message = Some (js ''pull llama2: file does not exist'')\<rparr>"

definition blankBackend :: "int backend" where
  "blankBackend k request = Resolved (Some [32, 9, 10])"

section \<open>Auxiliary facts\<close>

lemma js_eq_iff [simp]: "js a = js b \<longleftrightarrow> a = b"
  by (simp add: js_def inj_map_eq_map [OF inj_of_char])

lemma js_Nil_iff [simp]: "js a = [] \<longleftrightarrow> a = []"
  by (simp add: js_def)

lemma js_Nil_iff' [simp]: "[] = js a \<longleftrightarrow> a = []"
  by (auto simp: js_def)

lemma js_append: "js a @ js b = js (a @ b)"
  by (simp add: js_def)

lemma js_append_more: "js a @ js b @ c = js (a @ b) @ c"
  by (simp add: js_def)

lemma slice_drop:
  assumes "0 \<le> start"
  shows "slice xs start = drop (nat start) xs"
proof (cases "start \<le> int (length xs)")
  case True
  with assms show ?thesis by (simp add: slice_def Let_def min_def)
next
  case False
  then have "length xs \<le> nat start" by linarith
  with assms False show ?thesis by (simp add: slice_def Let_def min_def)
qed

lemma trimChatHistory_drop: "trimChatHistory history n = drop (length history - nat n) history"
proof (cases "int (length history) \<le> n")
  case True
  then show ?thesis by (simp add: trimChatHistory_def)
next
  case False
  show ?thesis
  proof (cases "0 \<le> n")
    case True
    with False have "nat (int (length history) - n) = length history - nat n"
      by (simp add: nat_diff_distrib')
    with False show ?thesis by (simp add: trimChatHistory_def slice_drop)
  next
    case negative: False
    then have "length history \<le> nat (int (length history) - n)" by linarith
    with False negative show ?thesis by (simp add: trimChatHistory_def slice_drop)
  qed
qed

lemma length_trimChatHistory: "length (trimChatHistory history n) = min (length history) (nat n)"
  by (simp add: trimChatHistory_drop)

lemma pushHistory_map:
  "pushHistory currentAgent history msgs = msgs @ map (specLabel currentAgent) history"
  by (induction history arbitrary: msgs) (simp_all add: specLabel_def)

lemma nat_max_0: "nat (max 0 n) = nat n"
  by (simp add: max_def)

lemma buildMessages_specContext:
  "buildMessages cfg history currentAgent systemPrompt =
     specContext (chatMaxLength cfg) history currentAgent systemPrompt"
  by (simp add: buildMessages_def specContext_def specWindow_def specSystem_def specSlot_def
      pushHistory_map trimChatHistory_drop nat_max_0 Let_def)

lemma otherIndex_range: "otherIndex i = 1 \<or> otherIndex i = 2"
  by (simp add: otherIndex_def)

lemma otherIndex_differs: "otherIndex i \<noteq> i"
  by (simp add: otherIndex_def)

lemma actingIndex_Suc: "actingIndex start (Suc k) = otherIndex (actingIndex start k)"
  by (simp add: actingIndex_def)

lemma actingIndex_shift: "actingIndex (otherIndex start) k = actingIndex start (Suc k)"
  by (simp add: actingIndex_def funpow_swap1)

lemma afterTurns_shift:
  "afterTurns cfg chat (otherIndex start) (pushedState cfg chat start s) k =
     afterTurns cfg chat start s (Suc k)"
proof (induction k)
  case 0
  show ?case by (simp add: actingIndex_def)
next
  case (Suc k)
  then show ?case by (simp add: actingIndex_shift del: funpow.simps)
qed

lemma sendMessageToAgent_text:
  "fst (sendMessageToAgent cfg chat sent history currentAgent systemPrompt) =
     (case chat (length sent)
        (chatRequest cfg (buildMessages cfg history currentAgent systemPrompt)) of
        Resolved c \<Rightarrow> extractContent c
      | Rejected e \<Rightarrow> catchError cfg e)"
  by (simp add: sendMessageToAgent_def Let_def split: chat_outcome.split)

lemma sendMessageToAgent_log:
  "snd (sendMessageToAgent cfg chat sent history currentAgent systemPrompt) =
     sent @ [chatRequest cfg (buildMessages cfg history currentAgent systemPrompt)]"
  by (simp add: sendMessageToAgent_def Let_def split: chat_outcome.split)

lemma pushedState_eq:
  "pushedState cfg chat i s =
     \<lparr>chatHistory = chatHistory s @
        [\<lparr>name = agentName cfg i,
          message = fst (sendMessageToAgent cfg chat (requests s) (chatHistory s)
            (agentName cfg i) (agentSystem cfg i))\<rparr>],
      turnCount = turnCount s + 1,
      requests = requests s @
        [chatRequest cfg (buildMessages cfg (chatHistory s)
           (agentName cfg i) (agentSystem cfg i))]\<rparr>"
  by (simp add: pushedState_def sendMessageToAgent_log)

text \<open>The two ends of a turn.\<close>

lemma autoChatTurn_eq:
  "autoChatTurn cfg chat isTTY i s =
     (if isTTY then Pushed (pushedState cfg chat i s)
      else Threw ((pushedState cfg chat i s)\<lparr>chatHistory := chatHistory s\<rparr>))"
  by (simp add: autoChatTurn_def pushedState_def Let_def split_def)

lemma turnCount_pushedState: "turnCount (pushedState cfg chat i s) = turnCount s + 1"
  by (simp add: pushedState_def)

text \<open>On a terminal the loop runs to its guard.\<close>

lemma autoChat_afterTurns:
  "autoChat cfg chat True start s =
     Finished (afterTurns cfg chat start s (nat (maxTurns cfg - turnCount s)))"
proof (induction cfg chat "True" start s rule: autoChat.induct)
  case (1 cfg chat currentAgentIndex s)
  show ?case
  proof (cases "maxTurns cfg \<le> turnCount s")
    case True
    then show ?thesis by (subst autoChat.simps) simp
  next
    case False
    then have n: "nat (maxTurns cfg - turnCount s) = Suc (nat (maxTurns cfg - (turnCount s + 1)))"
      by linarith
    have turn: "autoChatTurn cfg chat True currentAgentIndex s =
        Pushed (pushedState cfg chat currentAgentIndex s)"
      by (simp add: autoChatTurn_eq)
    have "autoChat cfg chat True currentAgentIndex s =
        autoChat cfg chat True (otherIndex currentAgentIndex)
          (pushedState cfg chat currentAgentIndex s)"
      using False by (subst autoChat.simps) (simp add: turn)
    also have "\<dots> = Finished (afterTurns cfg chat (otherIndex currentAgentIndex)
        (pushedState cfg chat currentAgentIndex s) (nat (maxTurns cfg - (turnCount s + 1))))"
      using "1.hyps" [OF False turn] by (simp add: turnCount_pushedState)
    also have "\<dots> = Finished (afterTurns cfg chat currentAgentIndex s
        (nat (maxTurns cfg - turnCount s)))"
      by (simp only: afterTurns_shift n)
    finally show ?thesis .
  qed
qed

text \<open>Elsewhere the first turn throws, after its request and before its push.\<close>

lemma autoChat_no_terminal:
  "autoChat cfg chat False i s =
     (if maxTurns cfg \<le> turnCount s then Finished s
      else Uncaught ((pushedState cfg chat i s)\<lparr>chatHistory := chatHistory s\<rparr>))"
  by (subst autoChat.simps) (simp add: autoChatTurn_eq)

lemma autoChat_Finished:
  assumes "autoChat cfg chat isTTY start s = Finished s'"
  shows "s' = afterTurns cfg chat start s (nat (maxTurns cfg - turnCount s))"
proof (cases isTTY)
  case True
  with assms show ?thesis by (simp add: autoChat_afterTurns)
next
  case False
  with assms show ?thesis by (simp add: autoChat_no_terminal split: if_splits)
qed

lemma length_chatHistory_afterTurns:
  "length (chatHistory (afterTurns cfg chat start s k)) = length (chatHistory s) + k"
  by (induction k) (simp_all add: pushedState_eq)

lemma length_requests_afterTurns:
  "length (requests (afterTurns cfg chat start s k)) = length (requests s) + k"
  by (induction k) (simp_all add: pushedState_eq)

lemma chatHistory_afterTurns_Suc:
  "chatHistory (afterTurns cfg chat start s (Suc k)) =
     chatHistory (afterTurns cfg chat start s k) @
       [\<lparr>name = agentName cfg (actingIndex start k),
         message = fst (sendMessageToAgent cfg chat (requests (afterTurns cfg chat start s k))
           (chatHistory (afterTurns cfg chat start s k))
           (agentName cfg (actingIndex start k)) (agentSystem cfg (actingIndex start k)))\<rparr>]"
  by (simp add: pushedState_eq)

lemma requests_afterTurns_Suc:
  "requests (afterTurns cfg chat start s (Suc k)) =
     requests (afterTurns cfg chat start s k) @
       [chatRequest cfg (buildMessages cfg (chatHistory (afterTurns cfg chat start s k))
           (agentName cfg (actingIndex start k)) (agentSystem cfg (actingIndex start k)))]"
  by (simp add: pushedState_eq)

lemma chatHistory_afterTurns_take:
  "j \<le> k \<Longrightarrow>
     take (length (chatHistory s) + j) (chatHistory (afterTurns cfg chat start s k)) =
       chatHistory (afterTurns cfg chat start s j)"
proof (induction k)
  case 0
  then show ?case by simp
next
  case (Suc k)
  show ?case
  proof (cases "j = Suc k")
    case True
    then show ?thesis
      using length_chatHistory_afterTurns [of cfg chat start s "Suc k"] by simp
  next
    case False
    with Suc.prems have "j \<le> k" by simp
    then show ?thesis
      using Suc.IH length_chatHistory_afterTurns [of cfg chat start s k]
      by (simp only: chatHistory_afterTurns_Suc) simp
  qed
qed

lemma requests_afterTurns_take:
  "j \<le> k \<Longrightarrow>
     take (length (requests s) + j) (requests (afterTurns cfg chat start s k)) =
       requests (afterTurns cfg chat start s j)"
proof (induction k)
  case 0
  then show ?case by simp
next
  case (Suc k)
  show ?case
  proof (cases "j = Suc k")
    case True
    then show ?thesis
      using length_requests_afterTurns [of cfg chat start s "Suc k"] by simp
  next
    case False
    with Suc.prems have "j \<le> k" by simp
    then show ?thesis
      using Suc.IH length_requests_afterTurns [of cfg chat start s k]
      by (simp only: requests_afterTurns_Suc) simp
  qed
qed

text \<open>Entry \<open>j\<close> beyond the starting history, in any later state.\<close>

lemma chatHistory_afterTurns_nth:
  assumes "j < k"
  shows "chatHistory (afterTurns cfg chat start s k) ! (length (chatHistory s) + j) =
     \<lparr>name = agentName cfg (actingIndex start j),
      message = fst (sendMessageToAgent cfg chat
        (take (length (requests s) + j) (requests (afterTurns cfg chat start s k)))
        (take (length (chatHistory s) + j) (chatHistory (afterTurns cfg chat start s k)))
        (agentName cfg (actingIndex start j)) (agentSystem cfg (actingIndex start j)))\<rparr>"
proof -
  let ?H = "\<lambda>n. chatHistory (afterTurns cfg chat start s n)"
  have tr: "take (length (requests s) + j) (requests (afterTurns cfg chat start s k)) =
      requests (afterTurns cfg chat start s j)"
    using assms by (simp add: requests_afterTurns_take)
  have len: "length (?H j) = length (chatHistory s) + j"
    by (rule length_chatHistory_afterTurns)
  have tj: "take (length (chatHistory s) + j) (?H k) = ?H j"
    using assms by (simp add: chatHistory_afterTurns_take)
  have tS: "take (length (chatHistory s) + Suc j) (?H k) = ?H (Suc j)"
    using assms by (intro chatHistory_afterTurns_take) simp
  have "?H k ! (length (chatHistory s) + j) =
      take (length (chatHistory s) + Suc j) (?H k) ! (length (chatHistory s) + j)"
    by simp
  also have "\<dots> = ?H (Suc j) ! (length (chatHistory s) + j)"
    by (simp only: tS)
  also have "\<dots> = \<lparr>name = agentName cfg (actingIndex start j),
      message = fst (sendMessageToAgent cfg chat (requests (afterTurns cfg chat start s j)) (?H j)
        (agentName cfg (actingIndex start j)) (agentSystem cfg (actingIndex start j)))\<rparr>"
    by (simp only: chatHistory_afterTurns_Suc len [symmetric] nth_append_length)
  finally show ?thesis by (simp only: tj tr)
qed

lemma requests_afterTurns_nth:
  assumes "j < k"
  shows "requests (afterTurns cfg chat start s k) ! (length (requests s) + j) =
     chatRequest cfg (buildMessages cfg
        (take (length (chatHistory s) + j) (chatHistory (afterTurns cfg chat start s k)))
        (agentName cfg (actingIndex start j)) (agentSystem cfg (actingIndex start j)))"
proof -
  let ?R = "\<lambda>n. requests (afterTurns cfg chat start s n)"
  have len: "length (?R j) = length (requests s) + j"
    by (rule length_requests_afterTurns)
  have tj: "take (length (chatHistory s) + j) (chatHistory (afterTurns cfg chat start s k)) =
      chatHistory (afterTurns cfg chat start s j)"
    using assms by (simp add: chatHistory_afterTurns_take)
  have tS: "take (length (requests s) + Suc j) (?R k) = ?R (Suc j)"
    using assms by (intro requests_afterTurns_take) simp
  have "?R k ! (length (requests s) + j) =
      take (length (requests s) + Suc j) (?R k) ! (length (requests s) + j)"
    by simp
  also have "\<dots> = ?R (Suc j) ! (length (requests s) + j)"
    by (simp only: tS)
  also have "\<dots> = chatRequest cfg (buildMessages cfg (chatHistory (afterTurns cfg chat start s j))
        (agentName cfg (actingIndex start j)) (agentSystem cfg (actingIndex start j)))"
    by (simp only: requests_afterTurns_Suc len [symmetric] nth_append_length)
  finally show ?thesis by (simp only: tj)
qed

lemma includes_str_sublist: "includes_str s p \<longleftrightarrow> sublist p s"
  by (induction s) (simp_all add: sublist_Cons_right)

lemma rev_dropWhile_takeWhile:
  "rev (dropWhile P (rev ys)) @ rev (takeWhile P (rev ys)) = ys"
  by (simp only: rev_append [symmetric] takeWhile_dropWhile_id rev_rev_ident)

lemma dropWhile_trim:
  "dropWhile isWhiteSpace t =
     trim t @ rev (takeWhile isWhiteSpace (rev (dropWhile isWhiteSpace t)))"
  by (simp only: trim_def rev_dropWhile_takeWhile)

lemma trim_Nil:
  assumes "dropWhile isWhiteSpace t = []"
  shows "trim t = []"
  unfolding trim_def assms by simp

lemma trim_decompose:
  "\<exists>pre post. t = pre @ trim t @ post \<and>
     (\<forall>x\<in>set pre. isWhiteSpace x) \<and> (\<forall>x\<in>set post. isWhiteSpace x)"
proof -
  let ?pre = "takeWhile isWhiteSpace t"
  let ?post = "rev (takeWhile isWhiteSpace (rev (dropWhile isWhiteSpace t)))"
  have "t = ?pre @ dropWhile isWhiteSpace t" by simp
  also have "dropWhile isWhiteSpace t = trim t @ ?post" by (rule dropWhile_trim)
  finally have "t = ?pre @ trim t @ ?post" .
  moreover have "\<forall>x\<in>set ?pre. isWhiteSpace x"
    by (auto dest: set_takeWhileD)
  moreover have "\<forall>x\<in>set ?post. isWhiteSpace x"
    by (auto dest: set_takeWhileD)
  ultimately show ?thesis by blast
qed

lemma trim_ends:
  assumes "trim t \<noteq> []"
  shows "\<not> isWhiteSpace (hd (trim t)) \<and> \<not> isWhiteSpace (last (trim t))"
proof -
  let ?d = "dropWhile isWhiteSpace t"
  let ?e = "dropWhile isWhiteSpace (rev ?d)"
  have e: "?e \<noteq> []" using assms by (simp add: trim_def)
  then have "\<not> isWhiteSpace (hd ?e)" by (rule hd_dropWhile)
  moreover have "last (trim t) = hd ?e" using e by (simp add: trim_def last_rev)
  ultimately have l: "\<not> isWhiteSpace (last (trim t))" by simp
  have "hd ?d = hd (trim t @ rev (takeWhile isWhiteSpace (rev ?d)))"
    by (rule arg_cong [OF dropWhile_trim])
  with assms have h: "hd ?d = hd (trim t)" by simp
  have "?d \<noteq> []"
  proof
    assume "?d = []"
    then have "trim t = []" by (rule trim_Nil)
    with assms show False by simp
  qed
  then have "\<not> isWhiteSpace (hd ?d)" by (rule hd_dropWhile)
  with h l show ?thesis by simp
qed

lemma trim_blank:
  assumes "\<forall>x\<in>set t. isWhiteSpace x"
  shows "trim t = []"
proof -
  from assms have "dropWhile isWhiteSpace t = []" by simp
  then show ?thesis by (rule trim_Nil)
qed

lemma requests_afterTurns_form:
  "r \<in> set (requests (afterTurns cfg chat start s k)) \<Longrightarrow>
     r \<in> set (requests s) \<or> (\<exists>msgs. r = chatRequest cfg msgs)"
  by (induction k) (auto simp: pushedState_eq)

lemma actingIndex_firstAgent:
  "actingIndex (fst (firstAgent cfg history)) k \<in> {1, 2}"
proof (cases k)
  case 0
  then show ?thesis by (simp add: actingIndex_def firstAgent_def Let_def)
next
  case (Suc j)
  then show ?thesis using otherIndex_range [of "actingIndex (fst (firstAgent cfg history)) j"]
    by (auto simp: actingIndex_Suc)
qed

lemma runChat_Finished:
  assumes "runChat cfg chat isTTY = Finished s"
  shows "s = afterTurns cfg chat (fst (firstAgent cfg (initialMessages cfg))) (initialState cfg)
       (nat (maxTurns cfg))"
    and "\<not> settingsIncomplete cfg"
proof -
  from assms show c: "\<not> settingsIncomplete cfg"
    by (auto simp: runChat_def split: if_splits)
  with assms have "autoChat cfg chat isTTY (fst (firstAgent cfg (initialMessages cfg)))
      (initialState cfg) = Finished s"
    by (simp add: runChat_def initialState_def)
  then show "s = afterTurns cfg chat (fst (firstAgent cfg (initialMessages cfg)))
      (initialState cfg) (nat (maxTurns cfg))"
    using autoChat_Finished by (fastforce simp: initialState_def)
qed

text \<open>With a terminal a complete configuration always reaches the end of the loop.\<close>

lemma runChat_terminal:
  assumes "\<not> settingsIncomplete cfg"
  shows "runChat cfg chat True =
     Finished (afterTurns cfg chat (fst (firstAgent cfg (initialMessages cfg)))
       (initialState cfg) (nat (maxTurns cfg)))"
  using assms by (simp add: runChat_def autoChat_afterTurns initialState_def)

text \<open>
  Without one, and with a turn to run, the script stops in the first turn: one request
  made, the turn counted, nothing pushed.
\<close>

lemma runChat_no_terminal:
  assumes "\<not> settingsIncomplete cfg" and "0 < maxTurns cfg"
  shows "\<exists>s. runChat cfg chat False = Uncaught s \<and> chatHistory s = initialMessages cfg \<and>
     turnCount s = 1 \<and> length (requests s) = 1"
  using assms
  by (simp add: runChat_def autoChat_no_terminal initialState_def pushedState_eq)

text \<open>Every request made by a run, however it ends, is built by \<open>chatRequest\<close>.\<close>

lemma runChat_requests:
  assumes "runChat cfg chat isTTY = Finished s \<or> runChat cfg chat isTTY = Uncaught s"
    and "r \<in> set (requests s)"
  shows "\<exists>msgs. r = chatRequest cfg msgs"
  using assms(1)
proof
  assume "runChat cfg chat isTTY = Finished s"
  then have "r \<in> set (requests (afterTurns cfg chat (fst (firstAgent cfg (initialMessages cfg)))
      (initialState cfg) (nat (maxTurns cfg))))"
    using assms(2) runChat_Finished(1) by fastforce
  then have "r \<in> set (requests (initialState cfg)) \<or> (\<exists>msgs. r = chatRequest cfg msgs)"
    by (rule requests_afterTurns_form)
  then show ?thesis
    by (auto simp: initialState_def)
next
  assume u: "runChat cfg chat isTTY = Uncaught s"
  show ?thesis
  proof (cases isTTY)
    case True
    with u show ?thesis
      by (simp add: runChat_def autoChat_afterTurns split: if_splits)
  next
    case False
    with u assms(2) show ?thesis
      by (auto simp: runChat_def autoChat_no_terminal initialState_def pushedState_eq
          split: if_splits)
  qed
qed

text \<open>What a finished run holds for turn \<open>k\<close>.\<close>

lemma run_turn:
  assumes run: "runChat cfg chat isTTY = Finished s"
    and start: "start = fst (firstAgent cfg (initialMessages cfg))"
    and k: "k < nat (maxTurns cfg)"
  shows "requests s ! k =
      chatRequest cfg (buildMessages cfg
        (take (length (initialMessages cfg) + k) (chatHistory s))
        (agentName cfg (actingIndex start k)) (agentSystem cfg (actingIndex start k)))"
    and "chatHistory s ! (length (initialMessages cfg) + k) =
      \<lparr>name = agentName cfg (actingIndex start k),
       message = (case chat k (requests s ! k) of
          Resolved c \<Rightarrow> extractContent c
        | Rejected e \<Rightarrow> catchError cfg e)\<rparr>"
proof -
  have s: "s = afterTurns cfg chat start (initialState cfg) (nat (maxTurns cfg))"
    using runChat_Finished(1) [OF run] start by simp
  have h0: "chatHistory (initialState cfg) = initialMessages cfg"
    and r0: "requests (initialState cfg) = []"
    by (simp_all add: initialState_def)
  show req: "requests s ! k =
      chatRequest cfg (buildMessages cfg
        (take (length (initialMessages cfg) + k) (chatHistory s))
        (agentName cfg (actingIndex start k)) (agentSystem cfg (actingIndex start k)))"
    using requests_afterTurns_nth [OF k, of cfg chat start "initialState cfg"]
    by (simp add: s h0 r0)
  have "length (requests s) = nat (maxTurns cfg)"
    by (simp add: s length_requests_afterTurns r0)
  with k have lk: "length (take k (requests s)) = k"
    by simp
  have "chatHistory s ! (length (initialMessages cfg) + k) =
      \<lparr>name = agentName cfg (actingIndex start k),
       message = fst (sendMessageToAgent cfg chat (take k (requests s))
         (take (length (initialMessages cfg) + k) (chatHistory s))
         (agentName cfg (actingIndex start k)) (agentSystem cfg (actingIndex start k)))\<rparr>"
    using chatHistory_afterTurns_nth [OF k, of cfg chat start "initialState cfg"]
    by (simp add: s h0 r0)
  then show "chatHistory s ! (length (initialMessages cfg) + k) =
      \<lparr>name = agentName cfg (actingIndex start k),
       message = (case chat k (requests s ! k) of
          Resolved c \<Rightarrow> extractContent c
        | Rejected e \<Rightarrow> catchError cfg e)\<rparr>"
    by (simp only: sendMessageToAgent_text lk req)
qed

lemma run_lengths:
  assumes run: "runChat cfg chat isTTY = Finished s"
  shows "length (requests s) = nat (maxTurns cfg)"
    and "length (chatHistory s) = length (initialMessages cfg) + nat (maxTurns cfg)"
  using runChat_Finished(1) [OF run]
  by (simp_all add: length_requests_afterTurns length_chatHistory_afterTurns initialState_def)

lemma refusedRun: "runChat exampleSettings refusingBackend True = Finished refusedState"
  by code_simp

lemma length_specSystem: "int (length (specSystem systemPrompt)) = specSlot systemPrompt"
  by (simp add: specSystem_def specSlot_def)

lemma length_specWindow:
  "length (specWindow N systemPrompt transcript) =
     min (length transcript) (nat (N - specSlot systemPrompt))"
  by (simp add: specWindow_def nat_max_0)

lemma trimChatHistory_specWindow:
  "trimChatHistory history (N - (if systemPrompt \<noteq> [] then 1 else 0)) =
     specWindow N systemPrompt history"
  by (simp add: trimChatHistory_drop specWindow_def specSlot_def nat_max_0)

lemma buildMessages_window:
  "buildMessages cfg history currentAgent systemPrompt =
     specSystem systemPrompt @ map (specLabel currentAgent)
       (trimChatHistory history (chatMaxLength cfg - (if systemPrompt \<noteq> [] then 1 else 0)))"
  by (simp only: buildMessages_specContext specContext_def trimChatHistory_specWindow)

lemma options_chatRequest_cases:
  "options (chatRequest cfg msgs) =
     (case temperature cfg of None \<Rightarrow> [] | Some t \<Rightarrow> [(js ''temperature'', t)]) @
     (case repeatPenalty cfg of None \<Rightarrow> [] | Some r \<Rightarrow> [(js ''repeat_penalty'', r)])"
  by (simp add: chatRequest_def)

lemma temperature_chatRequest:
  "map_of (options (chatRequest cfg msgs)) (js ''temperature'') = temperature cfg"
  by (cases "temperature cfg"; cases "repeatPenalty cfg")
    (simp_all add: options_chatRequest_cases)

lemma repeat_penalty_chatRequest:
  "map_of (options (chatRequest cfg msgs)) (js ''repeat_penalty'') = repeatPenalty cfg"
  by (cases "temperature cfg"; cases "repeatPenalty cfg")
    (simp_all add: options_chatRequest_cases)

lemma keys_chatRequest:
  "fst ` set (options (chatRequest cfg msgs)) =
     (if temperature cfg = None then {} else {(js ''temperature'')}) \<union>
     (if repeatPenalty cfg = None then {} else {(js ''repeat_penalty'')})"
  by (cases "temperature cfg"; cases "repeatPenalty cfg")
    (auto simp: options_chatRequest_cases)

lemma distinct_keys_chatRequest:
  "distinct (map fst (options (chatRequest cfg msgs)))"
  by (cases "temperature cfg"; cases "repeatPenalty cfg")
    (simp_all add: options_chatRequest_cases)

section \<open>The number of turns\<close>

text \<open>
  C1. For a valid configuration (a positive \<open>maxTurns\<close>, a non-empty list of initial
  messages, both agent names present) every run that reaches the end of the loop has as
  its transcript the initial messages followed by exactly \<open>maxTurns\<close> further entries,
  whatever the server does; and on a terminal the run does reach the end of the loop.
\<close>

theorem run_appends_maxTurns:
  assumes "0 < maxTurns cfg" and "initialMessages cfg \<noteq> []"
    and "agent1Name cfg \<noteq> []" and "agent2Name cfg \<noteq> []"
  shows "(\<forall>s. runChat cfg chat isTTY = Finished s \<longrightarrow>
        int (length (chatHistory s)) = int (length (initialMessages cfg)) + maxTurns cfg \<and>
        take (length (initialMessages cfg)) (chatHistory s) = initialMessages cfg) \<and>
     (isTTY \<longrightarrow> (\<exists>s. runChat cfg chat isTTY = Finished s))"
proof -
  let ?start = "fst (firstAgent cfg (initialMessages cfg))"
  let ?s = "afterTurns cfg chat ?start (initialState cfg) (nat (maxTurns cfg))"
  have complete: "\<not> settingsIncomplete cfg"
    using assms by (simp add: settingsIncomplete_def)
  have "length (chatHistory ?s) = length (initialMessages cfg) + nat (maxTurns cfg)"
    by (simp add: length_chatHistory_afterTurns initialState_def)
  with assms(1) have len: "int (length (chatHistory ?s)) = int (length (initialMessages cfg)) + maxTurns cfg"
    by simp
  have "take (length (chatHistory (initialState cfg)) + 0) (chatHistory ?s) =
      chatHistory (afterTurns cfg chat ?start (initialState cfg) 0)"
    by (rule chatHistory_afterTurns_take) simp
  then have pre: "take (length (initialMessages cfg)) (chatHistory ?s) = initialMessages cfg"
    by (simp add: initialState_def)
  have finished: "int (length (chatHistory s)) = int (length (initialMessages cfg)) + maxTurns cfg \<and>
      take (length (initialMessages cfg)) (chatHistory s) = initialMessages cfg"
    if "runChat cfg chat isTTY = Finished s" for s
    using runChat_Finished(1) [OF that] len pre by simp
  have "\<exists>s. runChat cfg chat isTTY = Finished s" if isTTY
    using that runChat_terminal [OF complete, of chat] by simp
  with finished show ?thesis by blast
qed

theorem run_appends_maxTurns_witness:
  "0 < maxTurns exampleSettings \<and> initialMessages exampleSettings \<noteq> [] \<and>
   agent1Name exampleSettings \<noteq> [] \<and> agent2Name exampleSettings \<noteq> [] \<and>
   (\<exists>s. runChat exampleSettings replyBackend True = Finished s \<and>
      int (length (chatHistory s)) = 1 + 2 \<and>
      take 1 (chatHistory s) = [\<lparr>name = js ''Ann'', message = js ''hi''\<rparr>])"
  using run_appends_maxTurns [of exampleSettings replyBackend True]
  by (auto simp: exampleSettings_def)

section \<open>Alternation of the two agents\<close>

text \<open>
  C2. In a finished run, turn \<open>k\<close> makes one call of the server, with the
  context built for the agent acting in that turn, and appends one entry under that
  agent's name; the acting index is 1 or 2 and the next turn has the other index, so the
  next entry carries the other agent's name. The server is arbitrary: this holds
  whether a turn resolves or rejects.
\<close>

theorem turns_alternate:
  assumes "runChat cfg chat isTTY = Finished s"
    and "start = fst (firstAgent cfg (initialMessages cfg))"
    and "k < nat (maxTurns cfg)"
  shows "length (requests s) = nat (maxTurns cfg) \<and>
     length (chatHistory s) = length (initialMessages cfg) + nat (maxTurns cfg) \<and>
     requests s ! k =
       chatRequest cfg (buildMessages cfg
         (take (length (initialMessages cfg) + k) (chatHistory s))
         (agentName cfg (actingIndex start k)) (agentSystem cfg (actingIndex start k))) \<and>
     chatHistory s ! (length (initialMessages cfg) + k) =
       \<lparr>name = agentName cfg (actingIndex start k),
        message = (case chat k (requests s ! k) of
           Resolved c \<Rightarrow> extractContent c
         | Rejected e \<Rightarrow> catchError cfg e)\<rparr> \<and>
     actingIndex start k \<in> {1, 2} \<and>
     actingIndex start (Suc k) = otherIndex (actingIndex start k) \<and>
     actingIndex start (Suc k) \<in> {1, 2} \<and>
     actingIndex start (Suc k) \<noteq> actingIndex start k \<and>
     (Suc k < nat (maxTurns cfg) \<longrightarrow>
        name (chatHistory s ! (length (initialMessages cfg) + Suc k)) =
          agentName cfg (otherIndex (actingIndex start k)))"
proof -
  note lens = run_lengths [OF assms(1)]
  note turn = run_turn [OF assms]
  have in12: "actingIndex start j \<in> {1, 2}" for j
    unfolding assms(2) by (rule actingIndex_firstAgent)
  have step: "actingIndex start (Suc k) = otherIndex (actingIndex start k)"
    by (rule actingIndex_Suc)
  have diff: "actingIndex start (Suc k) \<noteq> actingIndex start k"
    unfolding step by (rule otherIndex_differs)
  have nxt: "name (chatHistory s ! (length (initialMessages cfg) + Suc k)) =
      agentName cfg (otherIndex (actingIndex start k))" if "Suc k < nat (maxTurns cfg)"
    using run_turn(2) [OF assms(1,2) that] by (simp add: step)
  from lens turn in12 [of k] in12 [of "Suc k"] step diff nxt show ?thesis
    by blast
qed

theorem turns_alternate_witness:
  "runChat exampleSettings refusingBackend True = Finished refusedState \<and>
   0 < nat (maxTurns exampleSettings) \<and>
   length (requests refusedState) = 2 \<and>
   name (chatHistory refusedState ! (1 + 0)) = js ''Bob'' \<and>
   name (chatHistory refusedState ! (1 + Suc 0)) = js ''Ann'' \<and>
   actingIndex (fst (firstAgent exampleSettings (initialMessages exampleSettings))) 0 = 2 \<and>
   actingIndex (fst (firstAgent exampleSettings (initialMessages exampleSettings))) (Suc 0) = 1"
proof -
  have k: "0 < nat (maxTurns exampleSettings)"
    by (simp add: exampleSettings_def)
  have a0: "actingIndex (fst (firstAgent exampleSettings (initialMessages exampleSettings))) 0 = 2"
    by (simp add: actingIndex_def firstAgent_def exampleSettings_def)
  show ?thesis
    using turns_alternate [OF refusedRun refl k] refusedRun k a0
    by (simp add: exampleSettings_def agentName_def otherIndex_def)
qed

section \<open>Failures of the server\<close>

text \<open>
  C3. In a run that reaches the end of the loop, when the call of turn \<open>k\<close> rejects,
  \<open>sendMessageToAgent\<close> returns the text of the \<open>catch\<close> block: the
  connection-refused sentence with the host when the error code is \<open>ECONNREFUSED\<close>;
  otherwise the model-not-found sentence when the error message contains
  \<open>pull <model>: file does not exist\<close>; otherwise the generic sentence ending in the
  error message itself (the word \<open>undefined\<close> when the error has none). That text is
  the text of the entry appended for turn \<open>k\<close>, the run appends all \<open>maxTurns\<close>
  entries, and the turn after \<open>k\<close> goes to the other agent.
\<close>

theorem failed_turn_becomes_text:
  assumes "runChat cfg chat isTTY = Finished s"
    and "start = fst (firstAgent cfg (initialMessages cfg))"
    and "k < nat (maxTurns cfg)"
    and "chat k (requests s ! k) = Rejected e"
  shows "fst (sendMessageToAgent cfg chat (take k (requests s))
       (take (length (initialMessages cfg) + k) (chatHistory s))
       (agentName cfg (actingIndex start k)) (agentSystem cfg (actingIndex start k))) =
       catchError cfg e \<and>
     chatHistory s ! (length (initialMessages cfg) + k) =
       \<lparr>name = agentName cfg (actingIndex start k), message = catchError cfg e\<rparr> \<and>
     (code e = Some (js ''ECONNREFUSED'') \<longrightarrow>
        catchError cfg e =
          js ''(Error: Could not connect to Ollama server at '' @ ollamaHost cfg @
          (js ''. Is Ollama running?)'')) \<and>
     (code e \<noteq> Some (js ''ECONNREFUSED'') \<and>
      (\<exists>m. error_message e = Some m \<and>
           sublist (js ''pull '' @ ollamaModel cfg @ js '': file does not exist'') m) \<longrightarrow>
        catchError cfg e =
          js ''(Error: Ollama model '' @ [39] @ ollamaModel cfg @ [39] @
          js '' not found. Did you run '' @ [39] @ js ''ollama run '' @ ollamaModel cfg @
          [39] @ js ''?)'') \<and>
     (code e \<noteq> Some (js ''ECONNREFUSED'') \<and>
      \<not> (\<exists>m. error_message e = Some m \<and>
           sublist (js ''pull '' @ ollamaModel cfg @ js '': file does not exist'') m) \<longrightarrow>
        (\<forall>m. error_message e = Some m \<longrightarrow>
           catchError cfg e = js ''(Error: Could not generate response - '' @ m @ js '')'') \<and>
        (error_message e = None \<longrightarrow>
           catchError cfg e = js ''(Error: Could not generate response - undefined)'')) \<and>
     length (chatHistory s) = length (initialMessages cfg) + nat (maxTurns cfg) \<and>
     (Suc k < nat (maxTurns cfg) \<longrightarrow>
        name (chatHistory s ! (length (initialMessages cfg) + Suc k)) =
          agentName cfg (otherIndex (actingIndex start k)))"
proof -
  note turn = run_turn [OF assms(1,2,3)]
  have "length (take k (requests s)) = k"
    using run_lengths(1) [OF assms(1)] assms(3) by simp
  then have sent: "fst (sendMessageToAgent cfg chat (take k (requests s))
      (take (length (initialMessages cfg) + k) (chatHistory s))
      (agentName cfg (actingIndex start k)) (agentSystem cfg (actingIndex start k))) =
      catchError cfg e"
    using assms(4) by (simp add: sendMessageToAgent_text turn(1) [symmetric])
  have entry: "chatHistory s ! (length (initialMessages cfg) + k) =
      \<lparr>name = agentName cfg (actingIndex start k), message = catchError cfg e\<rparr>"
    using turn(2) assms(4) by simp
  have refused: "catchError cfg e =
      js ''(Error: Could not connect to Ollama server at '' @ ollamaHost cfg @
      (js ''. Is Ollama running?)'')" if "code e = Some (js ''ECONNREFUSED'')"
    using that by (simp add: catchError_def connectionRefusedText_def)
  have missing: "catchError cfg e =
      js ''(Error: Ollama model '' @ [39] @ ollamaModel cfg @ [39] @
      js '' not found. Did you run '' @ [39] @ js ''ollama run '' @ ollamaModel cfg @
      [39] @ js ''?)''"
    if "code e \<noteq> Some (js ''ECONNREFUSED'')" and "error_message e = Some m"
      and "sublist (js ''pull '' @ ollamaModel cfg @ js '': file does not exist'') m" for m
    using that by (simp add: catchError_def modelNotFoundText_def includes_str_sublist)
  have other: "catchError cfg e = js ''(Error: Could not generate response - '' @ m @ js '')''"
    if "code e \<noteq> Some (js ''ECONNREFUSED'')"
      and "\<not> (\<exists>m. error_message e = Some m \<and>
           sublist (js ''pull '' @ ollamaModel cfg @ js '': file does not exist'') m)"
      and "error_message e = Some m" for m
    using that
    by (simp add: catchError_def genericErrorText_def templateText_def includes_str_sublist)
  have nameless: "catchError cfg e = js ''(Error: Could not generate response - undefined)''"
    if "code e \<noteq> Some (js ''ECONNREFUSED'')" and "error_message e = None"
    using that
    by (simp add: catchError_def genericErrorText_def templateText_def js_append)
  have len: "length (chatHistory s) = length (initialMessages cfg) + nat (maxTurns cfg)"
    by (rule run_lengths(2) [OF assms(1)])
  have nxt: "name (chatHistory s ! (length (initialMessages cfg) + Suc k)) =
      agentName cfg (otherIndex (actingIndex start k))" if "Suc k < nat (maxTurns cfg)"
    using run_turn(2) [OF assms(1,2) that] by (simp add: actingIndex_Suc)
  from sent entry refused missing other nameless len nxt show ?thesis
    by blast
qed

theorem failed_turn_becomes_text_witness:
  "runChat exampleSettings refusingBackend True = Finished refusedState \<and>
   0 < nat (maxTurns exampleSettings) \<and>
   refusingBackend 0 (requests refusedState ! 0) =
     Rejected \<lparr>code = Some (js ''ECONNREFUSED''), error_message = Some (js ''connect ECONNREFUSED'')\<rparr> \<and>
   chatHistory refusedState ! (1 + 0) =
     \<lparr>name = js ''Bob'', message =
       js ''(Error: Could not connect to Ollama server at http://localhost:11434. Is Ollama running?)''\<rparr> \<and>
   length (chatHistory refusedState) = 1 + 2 \<and>
   name (chatHistory refusedState ! (1 + Suc 0)) = js ''Ann'' \<and>
   (\<exists>s. runChat exampleSettings brokenBackend True = Finished s \<and>
      brokenBackend 0 (requests s ! 0) =
        Rejected \<lparr>code = None, error_message = Some (js ''boom'')\<rparr> \<and>
      \<not> sublist (js ''pull llama2: file does not exist'') (js ''boom'') \<and>
      chatHistory s ! (1 + 0) =
        \<lparr>name = js ''Bob'', message = js ''(Error: Could not generate response - boom)''\<rparr>) \<and>
   (\<exists>s. runChat exampleSettings silentBackend True = Finished s \<and>
      silentBackend 0 (requests s ! 0) = Rejected \<lparr>code = None, error_message = None\<rparr> \<and>
      chatHistory s ! (1 + 0) =
        \<lparr>name = js ''Bob'', message = js ''(Error: Could not generate response - undefined)''\<rparr>) \<and>
   (\<exists>s. runChat exampleSettings missingModelBackend True = Finished s \<and>
      missingModelBackend 0 (requests s ! 0) =
        Rejected \<lparr>code = None, error_message = Some (js ''pull llama2: file does not exist'')\<rparr> \<and>
      sublist (js ''pull llama2: file does not exist'') (js ''pull llama2: file does not exist'') \<and>
      chatHistory s ! (1 + 0) =
        \<lparr>name = js ''Bob'', message =
          js ''(Error: Ollama model '' @ [39] @ js ''llama2'' @ [39] @
          js '' not found. Did you run '' @ [39] @ js ''ollama run llama2'' @ [39] @ js ''?)''\<rparr>)"
proof -
  let ?start = "fst (firstAgent exampleSettings (initialMessages exampleSettings))"
  let ?after = "\<lambda>chat. afterTurns exampleSettings chat ?start (initialState exampleSettings)
      (nat (maxTurns exampleSettings))"
  have complete: "\<not> settingsIncomplete exampleSettings"
    by (simp add: settingsIncomplete_def exampleSettings_def)
  have k: "0 < nat (maxTurns exampleSettings)"
    by (simp add: exampleSettings_def)
  have a0: "agentName exampleSettings (actingIndex ?start 0) = js ''Bob''"
    by (simp add: actingIndex_def firstAgent_def agentName_def exampleSettings_def)
  have a1: "agentName exampleSettings (otherIndex (actingIndex ?start 0)) = js ''Ann''"
    by (simp add: actingIndex_def firstAgent_def agentName_def otherIndex_def exampleSettings_def)
  have cfg: "length (initialMessages exampleSettings) = 1"
    "ollamaHost exampleSettings = js ''http://localhost:11434''"
    "ollamaModel exampleSettings = js ''llama2''"
    "nat (maxTurns exampleSettings) = 2"
    by (simp_all add: exampleSettings_def)

  have e1: "refusingBackend 0 (requests refusedState ! 0) =
      Rejected \<lparr>code = Some (js ''ECONNREFUSED''), error_message = Some (js ''connect ECONNREFUSED'')\<rparr>"
    by (simp add: refusingBackend_def)
  have first: "chatHistory refusedState ! (1 + 0) =
      \<lparr>name = js ''Bob'', message =
        js ''(Error: Could not connect to Ollama server at http://localhost:11434. Is Ollama running?)''\<rparr> \<and>
     length (chatHistory refusedState) = 1 + 2 \<and>
     name (chatHistory refusedState ! (1 + Suc 0)) = js ''Ann''"
    using failed_turn_becomes_text [OF refusedRun refl k e1]
    by (simp add: a0 a1 cfg js_append js_append_more)

  have run2: "runChat exampleSettings brokenBackend True = Finished (?after brokenBackend)"
    by (rule runChat_terminal [OF complete])
  have e2: "brokenBackend 0 (requests (?after brokenBackend) ! 0) =
      Rejected \<lparr>code = None, error_message = Some (js ''boom'')\<rparr>"
    by (simp add: brokenBackend_def)
  have n2: "\<not> sublist (js ''pull llama2: file does not exist'') (js ''boom'')"
    by (auto dest: sublist_length_le simp: js_def)
  have second: "chatHistory (?after brokenBackend) ! (1 + 0) =
      \<lparr>name = js ''Bob'', message = js ''(Error: Could not generate response - boom)''\<rparr>"
    using failed_turn_becomes_text [OF run2 refl k e2] n2
    by (simp add: a0 cfg js_append js_append_more)

  have run3: "runChat exampleSettings silentBackend True = Finished (?after silentBackend)"
    by (rule runChat_terminal [OF complete])
  have e3: "silentBackend 0 (requests (?after silentBackend) ! 0) =
      Rejected \<lparr>code = None, error_message = None\<rparr>"
    by (simp add: silentBackend_def)
  have third: "chatHistory (?after silentBackend) ! (1 + 0) =
      \<lparr>name = js ''Bob'', message = js ''(Error: Could not generate response - undefined)''\<rparr>"
    using failed_turn_becomes_text [OF run3 refl k e3]
    by (simp add: a0 cfg)

  have run4: "runChat exampleSettings missingModelBackend True =
      Finished (?after missingModelBackend)"
    by (rule runChat_terminal [OF complete])
  have e4: "missingModelBackend 0 (requests (?after missingModelBackend) ! 0) =
      Rejected \<lparr>code = None, error_message = Some (js ''pull llama2: file does not exist'')\<rparr>"
    by (simp add: missingModelBackend_def)
  have y4: "sublist (js ''pull llama2: file does not exist'') (js ''pull llama2: file does not exist'')"
    by simp
  have fourth: "chatHistory (?after missingModelBackend) ! (1 + 0) =
      \<lparr>name = js ''Bob'', message =
        js ''(Error: Ollama model '' @ [39] @ js ''llama2'' @ [39] @
        js '' not found. Did you run '' @ [39] @ js ''ollama run llama2'' @ [39] @ js ''?)''\<rparr>"
    using failed_turn_becomes_text [OF run4 refl k e4] y4
    by (simp add: a0 cfg js_append js_append_more)

  from refusedRun k e1 first run2 e2 n2 second run3 e3 third run4 e4 y4 fourth
  show ?thesis by blast
qed

section \<open>The context window\<close>

text \<open>
  C4. With a positive \<open>chatMaxLength\<close>, the messages sent are at most
  \<open>chatMaxLength\<close>, the system message included; they are the context of section 4.2
  (the system message first if and only if the prompt is non-empty, then the last
  \<open>max(0, N - slot)\<close> entries in order, relabelled); and a transcript that fits the
  window is left as it is by \<open>trimChatHistory\<close> and sent whole.
\<close>

theorem context_window_bounded:
  assumes "0 < chatMaxLength cfg"
  shows "int (length (buildMessages cfg history currentAgent systemPrompt)) \<le> chatMaxLength cfg \<and>
     buildMessages cfg history currentAgent systemPrompt =
       specContext (chatMaxLength cfg) history currentAgent systemPrompt \<and>
     (int (length history) \<le> chatMaxLength cfg - specSlot systemPrompt \<longrightarrow>
        trimChatHistory history (chatMaxLength cfg - specSlot systemPrompt) = history \<and>
        buildMessages cfg history currentAgent systemPrompt =
          specSystem systemPrompt @ map (specLabel currentAgent) history)"
proof -
  let ?N = "chatMaxLength cfg"
  have eq: "buildMessages cfg history currentAgent systemPrompt =
      specContext ?N history currentAgent systemPrompt"
    by (rule buildMessages_specContext)
  have "int (length (specContext ?N history currentAgent systemPrompt)) =
      specSlot systemPrompt + int (min (length history) (nat (?N - specSlot systemPrompt)))"
    by (simp add: specContext_def length_specSystem length_specWindow)
  also have "\<dots> \<le> specSlot systemPrompt + int (nat (?N - specSlot systemPrompt))"
    by (simp only: add_left_mono of_nat_le_iff min.cobounded2)
  also have "\<dots> = ?N"
    using assms by (simp add: specSlot_def)
  finally have bound: "int (length (buildMessages cfg history currentAgent systemPrompt)) \<le> ?N"
    by (simp only: eq)
  have short: "trimChatHistory history (?N - specSlot systemPrompt) = history \<and>
      buildMessages cfg history currentAgent systemPrompt =
        specSystem systemPrompt @ map (specLabel currentAgent) history"
    if "int (length history) \<le> ?N - specSlot systemPrompt"
  proof -
    from that have t: "trimChatHistory history (?N - specSlot systemPrompt) = history"
      by (simp add: trimChatHistory_def)
    from that have "length history \<le> nat (?N - specSlot systemPrompt)" by linarith
    then have "specWindow ?N systemPrompt history = history"
      by (simp add: specWindow_def nat_max_0)
    with t show ?thesis by (simp add: eq specContext_def)
  qed
  from bound eq short show ?thesis by blast
qed

theorem context_window_bounded_witness:
  "0 < chatMaxLength exampleSettings \<and>
   int (length (buildMessages exampleSettings tenEntries (js ''Ann'') (js ''Be brief.''))) \<le> 3 \<and>
   buildMessages exampleSettings tenEntries (js ''Ann'') (js ''Be brief.'') =
     [\<lparr>role = js ''system'', content = js ''Be brief.''\<rparr>,
      \<lparr>role = js ''assistant'', content = js ''a''\<rparr>,
      \<lparr>role = js ''user'', content = js ''b''\<rparr>] \<and>
   int (length [\<lparr>name = js ''Ann'', message = js ''hi''\<rparr>]) \<le> chatMaxLength exampleSettings - specSlot (js ''Be brief.'') \<and>
   buildMessages exampleSettings [\<lparr>name = js ''Ann'', message = js ''hi''\<rparr>] (js ''Bob'') (js ''Be brief.'') =
     [\<lparr>role = js ''system'', content = js ''Be brief.''\<rparr>, \<lparr>role = js ''user'', content = js ''hi''\<rparr>]"
proof -
  have N: "0 < chatMaxLength exampleSettings"
    by (simp add: exampleSettings_def)
  have ten: "specContext 3 tenEntries (js ''Ann'') (js ''Be brief.'') =
     [\<lparr>role = js ''system'', content = js ''Be brief.''\<rparr>,
      \<lparr>role = js ''assistant'', content = js ''a''\<rparr>,
      \<lparr>role = js ''user'', content = js ''b''\<rparr>]"
    by code_simp
  have one: "specContext 3 [\<lparr>name = js ''Ann'', message = js ''hi''\<rparr>] (js ''Bob'') (js ''Be brief.'') =
     [\<lparr>role = js ''system'', content = js ''Be brief.''\<rparr>, \<lparr>role = js ''user'', content = js ''hi''\<rparr>]"
    by code_simp
  have N3: "chatMaxLength exampleSettings = 3"
    by (simp add: exampleSettings_def)
  show ?thesis
    using context_window_bounded [OF N, of tenEntries "(js ''Ann'')" "(js ''Be brief.'')"]
      context_window_bounded [OF N, of "[\<lparr>name = js ''Ann'', message = js ''hi''\<rparr>]" "(js ''Bob'')" "(js ''Be brief.'')"]
      ten one
    by (simp add: N3 specSlot_def specSystem_def specLabel_def)
qed

section \<open>Roles\<close>

text \<open>
  C5. Every entry of the trimmed window is sent with its own text, with role
  \<open>assistant\<close> exactly when its speaker is the acting agent and role \<open>user\<close>
  exactly when it is not. The example shows the same entry of speaker \<open>A\<close> sent as
  \<open>assistant\<close> to \<open>A\<close> and as \<open>user\<close> to \<open>B\<close>.
\<close>

theorem role_is_relative_to_acting_agent:
  assumes "window =
      trimChatHistory history (chatMaxLength cfg - (if systemPrompt \<noteq> [] then 1 else 0))"
    and "offset = (if systemPrompt \<noteq> [] then 1 else 0)"
    and "i < length window"
  shows "length (buildMessages cfg history currentAgent systemPrompt) = offset + length window \<and>
     content (buildMessages cfg history currentAgent systemPrompt ! (offset + i)) =
       message (window ! i) \<and>
     (role (buildMessages cfg history currentAgent systemPrompt ! (offset + i)) = js ''assistant''
        \<longleftrightarrow> name (window ! i) = currentAgent) \<and>
     (role (buildMessages cfg history currentAgent systemPrompt ! (offset + i)) = js ''user''
        \<longleftrightarrow> name (window ! i) \<noteq> currentAgent)"
proof -
  have off: "length (specSystem systemPrompt) = offset"
    by (simp add: specSystem_def assms(2))
  have b: "buildMessages cfg history currentAgent systemPrompt =
      specSystem systemPrompt @ map (specLabel currentAgent) window"
    unfolding assms(1) by (rule buildMessages_window)
  have nth: "buildMessages cfg history currentAgent systemPrompt ! (offset + i) =
      specLabel currentAgent (window ! i)"
    using assms(3) by (simp add: b off [symmetric])
  have len: "length (buildMessages cfg history currentAgent systemPrompt) = offset + length window"
    by (simp add: b off)
  show ?thesis
    by (simp add: nth len specLabel_def)
qed

theorem role_is_relative_to_acting_agent_witness:
  "[\<lparr>name = js ''A'', message = js ''hi''\<rparr>] =
     trimChatHistory [\<lparr>name = js ''A'', message = js ''hi''\<rparr>]
       (chatMaxLength exampleSettings - (if ([]::jsstring) \<noteq> [] then 1 else 0)) \<and>
   (0::nat) = (if ([]::jsstring) \<noteq> [] then 1 else 0) \<and>
   (0::nat) < length [\<lparr>name = js ''A'', message = js ''hi''\<rparr>] \<and>
   role (buildMessages exampleSettings [\<lparr>name = js ''A'', message = js ''hi''\<rparr>] (js ''A'') [] ! (0 + 0)) =
     (js ''assistant'') \<and>
   role (buildMessages exampleSettings [\<lparr>name = js ''A'', message = js ''hi''\<rparr>] (js ''B'') [] ! (0 + 0)) =
     (js ''user'')"
proof -
  have w: "[\<lparr>name = js ''A'', message = js ''hi''\<rparr>] =
     trimChatHistory [\<lparr>name = js ''A'', message = js ''hi''\<rparr>]
       (chatMaxLength exampleSettings - (if ([]::jsstring) \<noteq> [] then 1 else 0))"
    by (simp add: trimChatHistory_def exampleSettings_def)
  have o: "(0::nat) = (if ([]::jsstring) \<noteq> [] then 1 else 0)"
    by simp
  have i: "(0::nat) < length [\<lparr>name = js ''A'', message = js ''hi''\<rparr>]"
    by simp
  show ?thesis
    using role_is_relative_to_acting_agent [OF w o i, of "(js ''A'')"]
      role_is_relative_to_acting_agent [OF w o i, of "(js ''B'')"] w
    by simp
qed

section \<open>Who speaks first\<close>

text \<open>
  C6. With two different agent names and a non-empty seeded history: if the last
  entry is by agent 1, agent 2 starts; if it is by agent 2, agent 1 starts; both without
  a notice. If it is by neither, agent 1 starts and one notice naming the last speaker
  and agent 1 is printed.
\<close>

theorem first_agent_from_last_speaker:
  assumes "history \<noteq> []" and "agent1Name cfg \<noteq> agent2Name cfg"
  shows "(name (last history) = agent1Name cfg \<longrightarrow> firstAgent cfg history = (2, [])) \<and>
     (name (last history) = agent2Name cfg \<longrightarrow> firstAgent cfg history = (1, [])) \<and>
     (name (last history) \<noteq> agent1Name cfg \<and> name (last history) \<noteq> agent2Name cfg \<longrightarrow>
        firstAgent cfg history =
          (1, [[10] @ js ''(Last initial message was from '' @ [39] @
               name (last history) @ [39] @ js ''. '' @ agent1Name cfg @ js '' will start.)'']))"
  using assms by (simp add: firstAgent_def Let_def)

theorem first_agent_from_last_speaker_witness:
  "[\<lparr>name = js ''Human Operator'', message = js ''Hello''\<rparr>] \<noteq> [] \<and>
   agent1Name exampleSettings \<noteq> agent2Name exampleSettings \<and>
   firstAgent exampleSettings [\<lparr>name = js ''Human Operator'', message = js ''Hello''\<rparr>] =
     (1, [[10] @ js ''(Last initial message was from '' @ [39] @ js ''Human Operator'' @
          [39] @ js ''. Ann will start.)'']) \<and>
   firstAgent exampleSettings [\<lparr>name = js ''Ann'', message = js ''hi''\<rparr>] = (2, []) \<and>
   firstAgent exampleSettings [\<lparr>name = js ''Bob'', message = js ''hi''\<rparr>] = (1, [])"
proof -
  have d: "agent1Name exampleSettings \<noteq> agent2Name exampleSettings"
    by (simp add: exampleSettings_def)
  show ?thesis
    using first_agent_from_last_speaker [OF _ d, of "[\<lparr>name = js ''Human Operator'', message = js ''Hello''\<rparr>]"]
      first_agent_from_last_speaker [OF _ d, of "[\<lparr>name = js ''Ann'', message = js ''hi''\<rparr>]"]
      first_agent_from_last_speaker [OF _ d, of "[\<lparr>name = js ''Bob'', message = js ''hi''\<rparr>]"]
    by (simp add: exampleSettings_def js_append js_append_more)
qed

section \<open>Decoding parameters\<close>

text \<open>
  C7. Every request of a run, whether the run reaches the end of the loop or stops in
  a turn, has the property \<open>temperature\<close> in its options
  exactly when the setting is defined, with the setting's value, and likewise
  \<open>repeat_penalty\<close> for \<open>repeatPenalty\<close>; the options hold no other property and
  none twice.
\<close>

theorem decoding_parameters_only_when_defined:
  assumes "runChat cfg chat isTTY = Finished s \<or> runChat cfg chat isTTY = Uncaught s"
    and "r \<in> set (requests s)"
  shows "map_of (options r) (js ''temperature'') = temperature cfg \<and>
     map_of (options r) (js ''repeat_penalty'') = repeatPenalty cfg \<and>
     (js ''temperature'' \<in> fst ` set (options r) \<longleftrightarrow> temperature cfg \<noteq> None) \<and>
     (js ''repeat_penalty'' \<in> fst ` set (options r) \<longleftrightarrow> repeatPenalty cfg \<noteq> None) \<and>
     fst ` set (options r) \<subseteq> {js ''temperature'', js ''repeat_penalty''} \<and>
     distinct (map fst (options r))"
proof -
  from runChat_requests [OF assms] obtain msgs where r: "r = chatRequest cfg msgs"
    by blast
  show ?thesis
    unfolding r
    by (simp add: temperature_chatRequest repeat_penalty_chatRequest keys_chatRequest
        distinct_keys_chatRequest)
qed

theorem decoding_parameters_only_when_defined_witness:
  "runChat exampleSettings refusingBackend True = Finished refusedState \<and>
   \<lparr>model = js ''llama2'', keep_alive = Some (KeepAliveString (js ''5m'')),
     messages = [\<lparr>role = js ''user'', content = js ''hi''\<rparr>],
     options = [(js ''temperature'', 1)]\<rparr> \<in> set (requests refusedState) \<and>
   map_of [(js ''temperature'', 1::int)] (js ''temperature'') = temperature exampleSettings \<and>
   map_of [(js ''temperature'', 1::int)] (js ''repeat_penalty'') = repeatPenalty exampleSettings \<and>
   js ''repeat_penalty'' \<notin> fst ` set [(js ''temperature'', 1::int)]"
proof -
  have run: "runChat exampleSettings refusingBackend True = Finished refusedState \<or>
      runChat exampleSettings refusingBackend True = Uncaught refusedState"
    using refusedRun by simp
  have r: "\<lparr>model = js ''llama2'', keep_alive = Some (KeepAliveString (js ''5m'')),
     messages = [\<lparr>role = js ''user'', content = js ''hi''\<rparr>],
     options = [(js ''temperature'', 1)]\<rparr> \<in> set (requests refusedState)"
    by (simp add: refusedState_def)
  show ?thesis
    using decoding_parameters_only_when_defined [OF run r] refusedRun r
    by simp
qed

section \<open>The text of a successful reply\<close>

text \<open>
  C8. When the call resolves, the result is the fallback sentence if the content
  is absent, and otherwise the trimmed content: the content is the result between a
  prefix and a suffix of white space only, and a non-empty result neither begins nor
  ends with white space.
\<close>

theorem successful_reply_is_trimmed_content:
  assumes "chat (length sent)
      (chatRequest cfg (buildMessages cfg history currentAgent systemPrompt)) = Resolved c"
  shows "fst (sendMessageToAgent cfg chat sent history currentAgent systemPrompt) =
       (case c of
          None \<Rightarrow> js ''No valid content received from the Ollama model.''
        | Some t \<Rightarrow> trim t) \<and>
     (\<forall>t. c = Some t \<longrightarrow>
        (\<exists>pre post. t = pre @ trim t @ post \<and>
           (\<forall>x\<in>set pre. isWhiteSpace x) \<and> (\<forall>x\<in>set post. isWhiteSpace x)) \<and>
        (trim t \<noteq> [] \<longrightarrow>
           \<not> isWhiteSpace (hd (trim t)) \<and> \<not> isWhiteSpace (last (trim t))))"
proof -
  have "fst (sendMessageToAgent cfg chat sent history currentAgent systemPrompt) =
      extractContent c"
    using assms by (simp add: sendMessageToAgent_text)
  then have res: "fst (sendMessageToAgent cfg chat sent history currentAgent systemPrompt) =
      (case c of
         None \<Rightarrow> js ''No valid content received from the Ollama model.''
       | Some t \<Rightarrow> trim t)"
    by (cases c) (simp_all add: extractContent_def noValidContent_def)
  from res trim_decompose trim_ends show ?thesis
    by blast
qed

theorem successful_reply_is_trimmed_content_witness:
  "replyBackend (length ([]::int chat_request list)) (chatRequest exampleSettings
      (buildMessages exampleSettings [\<lparr>name = js ''Ann'', message = js ''hi''\<rparr>] (js ''Bob'') [])) =
     Resolved (Some (js '' ok '')) \<and>
   fst (sendMessageToAgent exampleSettings replyBackend []
      [\<lparr>name = js ''Ann'', message = js ''hi''\<rparr>] (js ''Bob'') []) = js ''ok'' \<and>
   \<not> isWhiteSpace (hd (trim (js '' ok ''))) \<and> \<not> isWhiteSpace (last (trim (js '' ok '')))"
proof -
  have c: "replyBackend (length ([]::int chat_request list)) (chatRequest exampleSettings
      (buildMessages exampleSettings [\<lparr>name = js ''Ann'', message = js ''hi''\<rparr>] (js ''Bob'') [])) =
     Resolved (Some (js '' ok ''))"
    by (simp add: replyBackend_def)
  have t: "trim (js '' ok '') = js ''ok''"
    by (simp add: trim_def js_def isWhiteSpace_def)
  show ?thesis
    using successful_reply_is_trimmed_content
        [where chat = replyBackend and sent = "[]" and cfg = exampleSettings
          and history = "[\<lparr>name = js ''Ann'', message = js ''hi''\<rparr>]"
          and currentAgent = "js ''Bob''" and systemPrompt = "[]", OF c] c t
    by simp
qed

section \<open>A window without room\<close>

text \<open>
  C9. When \<open>chatMaxLength\<close> minus the slot of the system prompt is zero or
  negative, the trimmed history is empty for every transcript, and the messages sent
  are the system message alone, or nothing when there is no prompt.
\<close>

theorem empty_window_when_no_room:
  assumes "chatMaxLength cfg - (if systemPrompt \<noteq> [] then 1 else 0) \<le> 0"
  shows "trimChatHistory history (chatMaxLength cfg - (if systemPrompt \<noteq> [] then 1 else 0)) = [] \<and>
     buildMessages cfg history currentAgent systemPrompt =
       (if systemPrompt \<noteq> [] then [\<lparr>role = js ''system'', content = systemPrompt\<rparr>] else [])"
proof -
  let ?n = "chatMaxLength cfg - (if systemPrompt \<noteq> [] then 1 else 0)"
  from assms have "nat ?n = 0" by simp
  then have t: "trimChatHistory history ?n = []"
    by (simp only: trimChatHistory_drop) simp
  have "buildMessages cfg history currentAgent systemPrompt =
      specSystem systemPrompt @ map (specLabel currentAgent) (trimChatHistory history ?n)"
    by (rule buildMessages_window)
  with t show ?thesis
    by (simp add: specSystem_def)
qed

theorem empty_window_when_no_room_witness:
  "chatMaxLength (exampleSettings\<lparr>chatMaxLength := 1\<rparr>) -
     (if (js ''Be brief.'') \<noteq> [] then 1 else 0) \<le> 0 \<and>
   trimChatHistory tenEntries 0 = [] \<and>
   buildMessages (exampleSettings\<lparr>chatMaxLength := 1\<rparr>) tenEntries (js ''Ann'') (js ''Be brief.'') =
     [\<lparr>role = js ''system'', content = js ''Be brief.''\<rparr>]"
proof -
  have n: "chatMaxLength (exampleSettings\<lparr>chatMaxLength := 1\<rparr>) -
     (if (js ''Be brief.'') \<noteq> [] then 1 else 0) \<le> 0"
    by simp
  show ?thesis
    using empty_window_when_no_room [OF n, of tenEntries "(js ''Ann'')"] n
    by simp
qed

section \<open>Blank replies\<close>

text \<open>
  C10. In a turn whose call resolves: if the content is absent the text returned, and
  pushed if the turn pushes, is the fallback sentence; if the content is a string, the
  result is that string trimmed, so the fallback branch is taken for an absent content
  only; and if the content is a string of white space only (the empty string included),
  \<open>sendMessageToAgent\<close> returns the empty string and the entry the turn pushes has the
  empty text, not the fallback sentence. On a terminal the turn does push.
\<close>

theorem blank_reply_is_empty_text:
  assumes "chat (length (requests s))
      (chatRequest cfg (buildMessages cfg (chatHistory s)
         (agentName cfg currentAgentIndex) (agentSystem cfg currentAgentIndex))) = Resolved c"
  shows "(c = None \<longrightarrow>
        fst (sendMessageToAgent cfg chat (requests s) (chatHistory s)
          (agentName cfg currentAgentIndex) (agentSystem cfg currentAgentIndex)) =
          js ''No valid content received from the Ollama model.'' \<and>
        (\<forall>s'. autoChatTurn cfg chat isTTY currentAgentIndex s = Pushed s' \<longrightarrow>
           chatHistory s' = chatHistory s @ [\<lparr>name = agentName cfg currentAgentIndex,
             message = js ''No valid content received from the Ollama model.''\<rparr>])) \<and>
     (\<forall>t. c = Some t \<longrightarrow>
        fst (sendMessageToAgent cfg chat (requests s) (chatHistory s)
          (agentName cfg currentAgentIndex) (agentSystem cfg currentAgentIndex)) = trim t) \<and>
     (\<forall>t. c = Some t \<and> (\<forall>x\<in>set t. isWhiteSpace x) \<longrightarrow>
        fst (sendMessageToAgent cfg chat (requests s) (chatHistory s)
          (agentName cfg currentAgentIndex) (agentSystem cfg currentAgentIndex)) = [] \<and>
        (\<forall>s'. autoChatTurn cfg chat isTTY currentAgentIndex s = Pushed s' \<longrightarrow>
           chatHistory s' =
             chatHistory s @ [\<lparr>name = agentName cfg currentAgentIndex, message = []\<rparr>] \<and>
           message (last (chatHistory s')) \<noteq>
             js ''No valid content received from the Ollama model.'')) \<and>
     (isTTY \<longrightarrow> (\<exists>s'. autoChatTurn cfg chat isTTY currentAgentIndex s = Pushed s'))"
proof -
  let ?sent = "fst (sendMessageToAgent cfg chat (requests s) (chatHistory s)
      (agentName cfg currentAgentIndex) (agentSystem cfg currentAgentIndex))"
  have sent: "?sent = extractContent c"
    using assms by (simp add: sendMessageToAgent_text)
  have turn: "chatHistory s' =
      chatHistory s @ [\<lparr>name = agentName cfg currentAgentIndex, message = ?sent\<rparr>]"
    if "autoChatTurn cfg chat isTTY currentAgentIndex s = Pushed s'" for s'
    using that by (auto simp: autoChatTurn_eq pushedState_eq split: if_splits)
  have absent: "?sent = js ''No valid content received from the Ollama model.''" if "c = None"
    using that by (simp add: sent extractContent_def noValidContent_def)
  have present: "?sent = trim t" if "c = Some t" for t
    using that by (simp add: sent extractContent_def)
  have blank: "?sent = []" if "c = Some t" and "\<forall>x\<in>set t. isWhiteSpace x" for t
    using that by (simp add: sent extractContent_def trim_blank)
  have pushes: "\<exists>s'. autoChatTurn cfg chat isTTY currentAgentIndex s = Pushed s'" if isTTY
    using that by (simp add: autoChatTurn_eq)
  have absent_pushed: "chatHistory s' = chatHistory s @ [\<lparr>name = agentName cfg currentAgentIndex,
      message = js ''No valid content received from the Ollama model.''\<rparr>]"
    if "c = None" and "autoChatTurn cfg chat isTTY currentAgentIndex s = Pushed s'" for s'
    using turn [OF that(2)] absent [OF that(1)] by simp
  have blank_pushed: "chatHistory s' =
        chatHistory s @ [\<lparr>name = agentName cfg currentAgentIndex, message = []\<rparr>] \<and>
      message (last (chatHistory s')) \<noteq> js ''No valid content received from the Ollama model.''"
    if "c = Some t" and "\<forall>x\<in>set t. isWhiteSpace x"
      and "autoChatTurn cfg chat isTTY currentAgentIndex s = Pushed s'" for t s'
    using turn [OF that(3)] blank [OF that(1,2)] by simp
  from absent absent_pushed present blank blank_pushed pushes show ?thesis
    by blast
qed

theorem blank_reply_is_empty_text_witness:
  "blankBackend (length (requests (initialState exampleSettings)))
      (chatRequest exampleSettings (buildMessages exampleSettings
         (chatHistory (initialState exampleSettings))
         (agentName exampleSettings 2) (agentSystem exampleSettings 2))) =
     Resolved (Some [32, 9, 10]) \<and>
   isWhiteSpace 32 \<and> isWhiteSpace 9 \<and> isWhiteSpace 10 \<and>
   fst (sendMessageToAgent exampleSettings blankBackend (requests (initialState exampleSettings))
      (chatHistory (initialState exampleSettings))
      (agentName exampleSettings 2) (agentSystem exampleSettings 2)) = [] \<and>
   (\<exists>s'. autoChatTurn exampleSettings blankBackend True 2 (initialState exampleSettings) = Pushed s' \<and>
      chatHistory s' =
        [\<lparr>name = js ''Ann'', message = js ''hi''\<rparr>, \<lparr>name = js ''Bob'', message = []\<rparr>])"
proof -
  have c: "blankBackend (length (requests (initialState exampleSettings)))
      (chatRequest exampleSettings (buildMessages exampleSettings
         (chatHistory (initialState exampleSettings))
         (agentName exampleSettings 2) (agentSystem exampleSettings 2))) =
     Resolved (Some [32, 9, 10])"
    by (simp add: blankBackend_def)
  have w: "\<forall>x\<in>set [32, 9, 10]. isWhiteSpace x"
    by (simp add: isWhiteSpace_def)
  have h: "chatHistory (initialState exampleSettings) = [\<lparr>name = js ''Ann'', message = js ''hi''\<rparr>]"
    "agentName exampleSettings 2 = js ''Bob''"
    by (simp_all add: initialState_def exampleSettings_def agentName_def)
  note t = blank_reply_is_empty_text
        [where chat = blankBackend and s = "initialState exampleSettings"
          and cfg = exampleSettings and currentAgentIndex = 2 and isTTY = True, OF c]
  from t w have sent: "fst (sendMessageToAgent exampleSettings blankBackend
      (requests (initialState exampleSettings)) (chatHistory (initialState exampleSettings))
      (agentName exampleSettings 2) (agentSystem exampleSettings 2)) = []"
    by blast
  from t obtain s' where
    p: "autoChatTurn exampleSettings blankBackend True 2 (initialState exampleSettings) = Pushed s'"
    by blast
  with t w have "chatHistory s' = chatHistory (initialState exampleSettings) @
      [\<lparr>name = agentName exampleSettings 2, message = []\<rparr>]"
    by blast
  then have "chatHistory s' =
      [\<lparr>name = js ''Ann'', message = js ''hi''\<rparr>, \<lparr>name = js ''Bob'', message = []\<rparr>]"
    by (simp add: h)
  with c w sent p show ?thesis
    by auto
qed

end
